theory Spec2Isabelle
  imports Complex_Main
begin

section \<open>The Atom class of \<^verbatim>\<open>Atoms/instantiation_atoms.py\<close>\<close>

text \<open>
  The source defines a placeholder class \<^verbatim>\<open>Residue\<close> and the class \<^verbatim>\<open>Atom\<close>, whose
  constructor stores its arguments, checks one assertion on the element symbol and derives
  the mass from the element.

  Python values are modelled as follows. A \<^verbatim>\<open>str\<close> is a \<open>string\<close> (the list of its bytes, see below); an argument typed
  \<^verbatim>\<open>T | None\<close> is a \<open>T option\<close>; an \<^verbatim>\<open>int\<close> is an \<open>int\<close>. A \<^verbatim>\<open>float\<close> is modelled by the
  \<open>real\<close> number its decimal literal denotes: the program only stores floats and returns
  float literals, it never computes with them, so no rounding takes place in the code that
  is modelled. The coordinate array is the list of its entries. A failed \<^verbatim>\<open>assert\<close>
  raises out of the constructor and no object is produced: the constructor returns
  \<open>error + Atom\<close>, with \<open>Inl\<close> for the error.
\<close>

subsection \<open>Data\<close>

text \<open>Values of the untyped side-table \<^verbatim>\<open>xtra\<close>.\<close>

datatype pyval = PyNone | PyStr string | PyInt int | PyFloat real

text \<open>
  \<^verbatim>\<open>class Residue\<close>, lines 5 to 10, with the attributes \<^verbatim>\<open>name\<close> and \<^verbatim>\<open>id\<close> as
  \<open>res_name\<close> and \<open>res_id\<close>. Its list of atoms refers to the atoms by their serial
  numbers; the source never adds to it.
\<close>

record Residue =
  res_name :: string
  res_id :: int
  atoms :: "int list"

definition Residue_init :: "string \<Rightarrow> int \<Rightarrow> Residue" where
  "Residue_init name' res_id' = \<lparr> res_name = name', res_id = res_id', atoms = [] \<rparr>"

text \<open>
  The attributes of an \<^verbatim>\<open>Atom\<close> object, in the order in which \<^verbatim>\<open>__init__\<close> assigns
  them. The attribute \<^verbatim>\<open>id\<close> is the field \<open>id_atom\<close> and \<^verbatim>\<open>_sorting_keys\<close> is
  \<open>sorting_keys\<close>. The type of \<^verbatim>\<open>full_id\<close> follows the comment of line 80.
\<close>

type_synonym full_id_t = "string \<times> int \<times> string \<times> int \<times> string"

record Atom =
  level :: string
  parent :: "Residue option"
  name :: string
  fullname :: string
  coord :: "real list"
  bfactor :: "real option"
  occupancy :: "real option"
  altloc :: string
  full_id :: "full_id_t option"
  id_atom :: string
  disordered_flag :: int
  anisou_array :: "real list option"
  siguij_array :: "real list option"
  sigatm_array :: "real list option"
  serial_number :: int
  xtra :: "string \<rightharpoonup> pyval"
  element :: "string option"
  mass :: "real option"
  pqr_charge :: "real option"
  radius :: "real option"
  sorting_keys :: "string \<rightharpoonup> int"

text \<open>The assertion of line 89 carries the element as its message.\<close>

datatype error = AssertionError "string option"

subsection \<open>Built-in operations of Python used by the constructor\<close>

text \<open>
  \<^verbatim>\<open>str.upper\<close> belongs to Python's library, not to this repository, and what it does to
  a character depends on the Unicode tables of the interpreter. It is therefore a parameter
  \<open>upper\<close> of the assertion and of the constructor below: every theorem about them is
  proved for every function from strings to strings, hence for \<^verbatim>\<open>str.upper\<close> on all of
  its inputs, ASCII or not. A \<open>string\<close> stands for a \<^verbatim>\<open>str\<close> through its UTF-8 bytes, so
  an ASCII character is one \<open>char\<close> with its own code and the literals of the source are
  the literals of the model.

  To run the constructor on concrete inputs, \<open>upper_ascii\<close> is \<^verbatim>\<open>str.upper\<close> on ASCII
  strings: the letters \<^verbatim>\<open>a\<close> to \<^verbatim>\<open>z\<close> (codes 97 to 122) move to \<^verbatim>\<open>A\<close> to \<^verbatim>\<open>Z\<close>
  (32 below) and every other ASCII character stays. It leaves the bytes from 128 on as they
  are, which is not what Python does to every character beyond ASCII; it is applied to
  ASCII strings only, in the concrete instances of the theorems.
\<close>

definition upper_ascii_char :: "char \<Rightarrow> char" where
  "upper_ascii_char c =
     (if (97::nat) \<le> of_char c \<and> of_char c \<le> (122::nat)
      then char_of (of_char c - (32::nat)) else c)"

definition upper_ascii :: "string \<Rightarrow> string" where
  "upper_ascii s = map upper_ascii_char s"

text \<open>
  \<^verbatim>\<open>not element\<close> for an argument of type \<^verbatim>\<open>str | None\<close>: \<^verbatim>\<open>None\<close> and the empty string
  are falsy, every other string is truthy.
\<close>

fun py_not :: "string option \<Rightarrow> bool" where
  "py_not None = True"
| "py_not (Some s) = (s = [])"

subsection \<open>The methods of Atom\<close>

text \<open>\<^verbatim>\<open>Atom._assign_element\<close>, lines 99 to 102: returns its argument.\<close>

definition assign_element :: "Atom \<Rightarrow> string option \<Rightarrow> string option" where
  "assign_element self element' = element'"

text \<open>\<^verbatim>\<open>Atom._assign_atom_mass\<close>, lines 104 to 114: three comparisons on \<^verbatim>\<open>self.element\<close>.\<close>

definition assign_atom_mass :: "Atom \<Rightarrow> real option" where
  "assign_atom_mass self =
     (if element self = Some ''C'' then Some 12.011
      else if element self = Some ''O'' then Some 15.999
      else if element self = Some ''N'' then Some 14.007
      else None)"

text \<open>
  The condition of the \<^verbatim>\<open>assert\<close> of line 89,
  \<^verbatim>\<open>not element or element == element.upper()\<close>. The right operand is evaluated only
  when the left one is false, which is when \<^verbatim>\<open>element\<close> is a non-empty string, so
  \<^verbatim>\<open>upper\<close> is never called on \<^verbatim>\<open>None\<close> and its value on the empty string is never
  looked at.
\<close>

definition element_assertion :: "(string \<Rightarrow> string) \<Rightarrow> string option \<Rightarrow> bool" where
  "element_assertion upper element' =
     (py_not element' \<or> element' = map_option upper element')"

text \<open>
  \<^verbatim>\<open>Atom.__init__\<close>, lines 27 to 96. The object is built by the assignments of lines 70
  to 88; the attributes assigned later do not exist yet at that point and hold \<open>None\<close>
  (or the empty map) in the record until their assignment. The assertion of line 89 then
  either aborts the construction or lets lines 90 to 96 run. The first argument is
  \<^verbatim>\<open>str.upper\<close>; the others are the arguments of the source, in its order.
\<close>

definition Atom_init ::
  "(string \<Rightarrow> string) \<Rightarrow> string \<Rightarrow> real list \<Rightarrow> real option \<Rightarrow> real option \<Rightarrow> string \<Rightarrow> string \<Rightarrow> int \<Rightarrow>
   string option \<Rightarrow> real option \<Rightarrow> real option \<Rightarrow> error + Atom" where
  "Atom_init upper name' coord' bfactor' occupancy' altloc' fullname' serial_number'
     element' pqr_charge' radius' =
   (let self = \<lparr> level = ''A'', parent = None, name = name', fullname = fullname',
                 coord = coord', bfactor = bfactor', occupancy = occupancy',
                 altloc = altloc', full_id = None, id_atom = name', disordered_flag = 0,
                 anisou_array = None, siguij_array = None, sigatm_array = None,
                 serial_number = serial_number', xtra = Map.empty,
                 element = None, mass = None, pqr_charge = None, radius = None,
                 sorting_keys = Map.empty \<rparr>
    in if element_assertion upper element' then
         (let self = self\<lparr>element := assign_element self element'\<rparr>;
              self = self\<lparr>mass := assign_atom_mass self\<rparr>;
              self = self\<lparr>pqr_charge := pqr_charge'\<rparr>;
              self = self\<lparr>radius := radius'\<rparr>;
              self = self\<lparr>sorting_keys :=
                       [''N'' \<mapsto> 0, ''CA'' \<mapsto> 1, ''C'' \<mapsto> 2, ''O'' \<mapsto> 3]\<rparr>
          in Inr self)
       else Inl (AssertionError element'))"

text \<open>
  The three constructions of the demonstration at the end of the file, lines 130 to 190;
  the defaults of \<^verbatim>\<open>element\<close>, \<^verbatim>\<open>pqr_charge\<close> and \<^verbatim>\<open>radius\<close> are \<^verbatim>\<open>None\<close>. Each
  takes \<^verbatim>\<open>str.upper\<close> as the constructor does.
\<close>

definition ca_atom_instance :: "(string \<Rightarrow> string) \<Rightarrow> error + Atom" where
  "ca_atom_instance upper =
     Atom_init upper ''CA'' [15.234, 12.567, 8.901] (Some 35.7) (Some 1.0) '' '' '' CA '' 25
       (Some ''C'') None None"

definition o_atom_altB :: "(string \<Rightarrow> string) \<Rightarrow> error + Atom" where
  "o_atom_altB upper =
     Atom_init upper ''O'' [16.123, 11.987, 9.543] (Some 45.1) (Some 0.5) ''B'' '' O  '' 26
       (Some ''O'') None None"

definition h_atom_pqr :: "(string \<Rightarrow> string) \<Rightarrow> error + Atom" where
  "h_atom_pqr upper =
     Atom_init upper ''H1'' [10.0, 10.0, 10.0] None None '' '' '' H1 '' 1
       (Some ''H'') (Some 0.25) (Some 1.2)"

section \<open>Properties\<close>

subsection \<open>Auxiliary facts\<close>

lemma upper_ascii_Nil: "upper_ascii [] = []"
  by (simp add: upper_ascii_def)

lemma upper_ascii_lower_c: "upper_ascii ''c'' = ''C''"
  by code_simp

lemma upper_ascii_symbols:
  "upper_ascii ''C'' = ''C''" "upper_ascii ''O'' = ''O''" "upper_ascii ''N'' = ''N''"
  "upper_ascii ''H'' = ''H''" "upper_ascii ''HG'' = ''HG''"
  by (simp_all add: upper_ascii_def upper_ascii_char_def)

text \<open>The assertion, for every \<open>up\<close> in the place of \<^verbatim>\<open>str.upper\<close>.\<close>

lemma element_assertion_None: "element_assertion up None"
  by (simp add: element_assertion_def)

lemma element_assertion_Some: "element_assertion up (Some s) \<longleftrightarrow> s = [] \<or> s = up s"
  by (simp add: element_assertion_def)

lemma element_assertion_empty: "element_assertion up (Some [])"
  by (simp add: element_assertion_Some)

lemma element_assertion_iff:
  "element_assertion up el \<longleftrightarrow> \<not> (\<exists>s. el = Some s \<and> s \<noteq> [] \<and> s \<noteq> up s)"
  by (cases el) (simp_all add: element_assertion_None element_assertion_Some)

lemma element_assertion_symbols:
  "element_assertion upper_ascii (Some ''C'')" "element_assertion upper_ascii (Some ''O'')"
  "element_assertion upper_ascii (Some ''N'')" "element_assertion upper_ascii (Some ''H'')"
  "element_assertion upper_ascii (Some ''HG'')"
  by (simp_all add: element_assertion_Some upper_ascii_symbols)

lemma Atom_init_Inl_iff:
  "Atom_init up nm crd bf occ alt fnm ser el chg rad = Inl e \<longleftrightarrow>
   \<not> element_assertion up el \<and> e = AssertionError el"
  by (auto simp: Atom_init_def Let_def)

text \<open>A successful construction returns the object with every attribute assigned.\<close>

lemma Atom_init_Inr_iff:
  "Atom_init up nm crd bf occ alt fnm ser el chg rad = Inr a \<longleftrightarrow>
   element_assertion up el \<and>
   a = \<lparr> level = ''A'', parent = None, name = nm, fullname = fnm,
         coord = crd, bfactor = bf, occupancy = occ,
         altloc = alt, full_id = None, id_atom = nm, disordered_flag = 0,
         anisou_array = None, siguij_array = None, sigatm_array = None,
         serial_number = ser, xtra = Map.empty, element = el,
         mass = (if el = Some ''C'' then Some 12.011
                 else if el = Some ''O'' then Some 15.999
                 else if el = Some ''N'' then Some 14.007
                 else None),
         pqr_charge = chg, radius = rad,
         sorting_keys = [''N'' \<mapsto> 0, ''CA'' \<mapsto> 1, ''C'' \<mapsto> 2, ''O'' \<mapsto> 3] \<rparr>"
  by (auto simp: Atom_init_def Let_def assign_element_def assign_atom_mass_def)

lemma Atom_init_succeeds:
  "element_assertion up el \<Longrightarrow>
   \<exists>a. Atom_init up nm crd bf occ alt fnm ser el chg rad = Inr a"
  by (simp add: Atom_init_Inr_iff)

text \<open>The three constructions of the demonstration succeed.\<close>

lemma ca_atom_instance_ok: "\<exists>a. ca_atom_instance upper_ascii = Inr a"
  unfolding ca_atom_instance_def
  by (rule Atom_init_succeeds) (simp add: element_assertion_symbols)

lemma o_atom_altB_ok: "\<exists>a. o_atom_altB upper_ascii = Inr a"
  unfolding o_atom_altB_def
  by (rule Atom_init_succeeds) (simp add: element_assertion_symbols)

lemma h_atom_pqr_ok: "\<exists>a. h_atom_pqr upper_ascii = Inr a"
  unfolding h_atom_pqr_def
  by (rule Atom_init_succeeds) (simp add: element_assertion_symbols)

subsection \<open>The derived mass\<close>

text \<open>
  Claim C1. On every successfully constructed Atom the mass is 12.011 when the element
  argument is \<^verbatim>\<open>"C"\<close>, 15.999 when it is \<^verbatim>\<open>"O"\<close>, 14.007 when it is \<^verbatim>\<open>"N"\<close>, and
  \<^verbatim>\<open>None\<close> for every other element argument, \<^verbatim>\<open>"H"\<close> and \<^verbatim>\<open>None\<close> among them.
\<close>

theorem mass_by_element:
  assumes "Atom_init up nm crd bf occ alt fnm ser el chg rad = Inr a"
  shows "mass a =
           (if el = Some ''C'' then Some 12.011
            else if el = Some ''O'' then Some 15.999
            else if el = Some ''N'' then Some 14.007
            else None)"
  using assms by (simp add: Atom_init_Inr_iff)

theorem mass_by_element_witness:
  "(case ca_atom_instance upper_ascii of Inl e \<Rightarrow> False
      | Inr a \<Rightarrow> mass a = Some 12.011) \<and>
   (case o_atom_altB upper_ascii of Inl e \<Rightarrow> False
      | Inr a \<Rightarrow> mass a = Some 15.999) \<and>
   (case Atom_init upper_ascii ''N'' [1.0, 2.0, 3.0] (Some 20.5) (Some 1.0) '' '' '' N  '' 24
           (Some ''N'') None None
      of Inl e \<Rightarrow> False | Inr a \<Rightarrow> mass a = Some 14.007) \<and>
   (case h_atom_pqr upper_ascii of Inl e \<Rightarrow> False | Inr a \<Rightarrow> mass a = None) \<and>
   (case Atom_init upper_ascii ''X'' [0.0, 0.0, 0.0] None None '' '' '' X  '' 2
           None None None
      of Inl e \<Rightarrow> False | Inr a \<Rightarrow> mass a = None)"
proof -
  obtain a1 where a1: "ca_atom_instance upper_ascii = Inr a1"
    using ca_atom_instance_ok by blast
  obtain a2 where a2: "o_atom_altB upper_ascii = Inr a2"
    using o_atom_altB_ok by blast
  obtain a3 where a3: "Atom_init upper_ascii ''N'' [1.0, 2.0, 3.0] (Some 20.5) (Some 1.0)
                         '' '' '' N  '' 24 (Some ''N'') None None = Inr a3"
    using Atom_init_succeeds [OF element_assertion_symbols(3)] by blast
  obtain a4 where a4: "h_atom_pqr upper_ascii = Inr a4"
    using h_atom_pqr_ok by blast
  obtain a5 where a5: "Atom_init upper_ascii ''X'' [0.0, 0.0, 0.0] None None '' '' '' X  '' 2
                         None None None = Inr a5"
    using Atom_init_succeeds [OF element_assertion_None] by blast
  have "mass a1 = Some 12.011"
    using mass_by_element [OF a1 [unfolded ca_atom_instance_def]] by simp
  moreover have "mass a2 = Some 15.999"
    using mass_by_element [OF a2 [unfolded o_atom_altB_def]] by simp
  moreover have "mass a3 = Some 14.007"
    using mass_by_element [OF a3] by simp
  moreover have "mass a4 = None"
    using mass_by_element [OF a4 [unfolded h_atom_pqr_def]] by simp
  moreover have "mass a5 = None"
    using mass_by_element [OF a5] by simp
  ultimately show ?thesis
    by (simp only: a1 a2 a3 a4 a5 sum.case simp_thms)
qed

text \<open>
  Claim C10. The mass depends on the element argument only: two successful constructions
  with the same element argument give the same mass, whatever the other nine arguments
  are.
\<close>

theorem mass_depends_on_element_only:
  assumes "Atom_init up nm1 crd1 bf1 occ1 alt1 fnm1 ser1 el chg1 rad1 = Inr a1"
    and "Atom_init up nm2 crd2 bf2 occ2 alt2 fnm2 ser2 el chg2 rad2 = Inr a2"
  shows "mass a1 = mass a2"
  using assms by (simp add: Atom_init_Inr_iff)

theorem mass_depends_on_element_only_witness:
  "(case ca_atom_instance upper_ascii of Inl e \<Rightarrow> False | Inr a1 \<Rightarrow>
      (case Atom_init upper_ascii ''C'' [1.5, -2.25, 0.0] None None ''A'' '' C  '' 7
              (Some ''C'') (Some 0.25) (Some 1.2)
         of Inl e \<Rightarrow> False | Inr a2 \<Rightarrow> mass a1 = mass a2 \<and> name a1 \<noteq> name a2))"
proof -
  obtain a1 where a1: "ca_atom_instance upper_ascii = Inr a1"
    using ca_atom_instance_ok by blast
  obtain a2 where a2: "Atom_init upper_ascii ''C'' [1.5, -2.25, 0.0] None None ''A''
                         '' C  '' 7 (Some ''C'') (Some 0.25) (Some 1.2) = Inr a2"
    using Atom_init_succeeds [OF element_assertion_symbols(1)] by blast
  have "mass a1 = mass a2"
    using mass_depends_on_element_only [OF a1 [unfolded ca_atom_instance_def] a2] .
  moreover have "name a1 \<noteq> name a2"
    using a1 a2 by (simp add: ca_atom_instance_def Atom_init_Inr_iff)
  ultimately show ?thesis
    by (simp only: a1 a2 sum.case simp_thms)
qed

subsection \<open>The element assertion\<close>

text \<open>
  Claim C2. Construction fails exactly when an element string is supplied that differs
  from its own upper-case form, as \<^verbatim>\<open>"c"\<close> does; the failure is the assertion error
  carrying the element, and there is no other error: in every other case an Atom is
  returned. This holds for every string, ASCII or not, since it holds for every function
  in the place of \<^verbatim>\<open>str.upper\<close> that maps the empty string to itself, as \<^verbatim>\<open>str.upper\<close>
  does. (The empty string passes the assertion without being upper-cased; that it is its
  own upper-case form is what makes the two descriptions agree on it.)
\<close>

theorem construction_fails_iff_element_not_upper:
  assumes "up [] = []"
  shows
  "(Atom_init up nm crd bf occ alt fnm ser el chg rad = Inl (AssertionError el)) =
     (\<exists>s. el = Some s \<and> s \<noteq> up s) \<and>
   (\<exists>e. Atom_init up nm crd bf occ alt fnm ser el chg rad = Inl e) =
     (\<exists>s. el = Some s \<and> s \<noteq> up s) \<and>
   (\<exists>a. Atom_init up nm crd bf occ alt fnm ser el chg rad = Inr a) =
     (\<not> (\<exists>s. el = Some s \<and> s \<noteq> up s))"
proof -
  have ea: "element_assertion up el = (\<not> (\<exists>s. el = Some s \<and> s \<noteq> up s))"
    using assms by (cases el) (auto simp: element_assertion_None element_assertion_Some)
  have "(Atom_init up nm crd bf occ alt fnm ser el chg rad = Inl (AssertionError el)) =
          (\<not> element_assertion up el)"
    by (simp add: Atom_init_Inl_iff)
  moreover have "(\<exists>e. Atom_init up nm crd bf occ alt fnm ser el chg rad = Inl e) =
          (\<not> element_assertion up el)"
    by (simp add: Atom_init_Inl_iff)
  moreover have "(\<exists>a. Atom_init up nm crd bf occ alt fnm ser el chg rad = Inr a) =
          element_assertion up el"
    by (simp add: Atom_init_Inr_iff)
  ultimately show ?thesis
    by (simp add: ea)
qed

theorem construction_fails_iff_element_not_upper_witness:
  "Atom_init upper_ascii ''CA'' [15.234, 12.567, 8.901] (Some 35.7) (Some 1.0) '' ''
     '' CA '' 25 (Some ''c'') None None = Inl (AssertionError (Some ''c''))"
proof -
  have "\<exists>s. Some ''c'' = Some s \<and> s \<noteq> upper_ascii s"
    by (simp add: upper_ascii_lower_c)
  then show ?thesis
    using construction_fails_iff_element_not_upper
            [of upper_ascii _ _ _ _ _ _ _ "Some ''c''", OF upper_ascii_Nil]
    by blast
qed

text \<open>
  Claim C4. Whenever the element argument is \<^verbatim>\<open>None\<close> or a string equal to its own
  upper-case form, construction succeeds, whatever the other arguments are: an occupancy
  outside the interval from 0 to 1, a negative radius, or B factor and occupancy given
  together with charge and radius. No argument but the element is checked. The upper-case
  form is that of whatever function stands for \<^verbatim>\<open>str.upper\<close>.
\<close>

theorem construction_succeeds_when_element_upper:
  assumes "el = None \<or> (\<exists>s. el = Some s \<and> s = up s)"
  shows "\<exists>a. Atom_init up nm crd bf occ alt fnm ser el chg rad = Inr a"
proof -
  from assms have "element_assertion up el"
    by (auto simp: element_assertion_iff)
  then show ?thesis
    by (rule Atom_init_succeeds)
qed

theorem construction_succeeds_when_element_upper_witness:
  "(case Atom_init upper_ascii ''HG'' [0.0, 0.0, 0.0] (Some 35.7) (Some 7.5) '' ''
           ''HG  '' 3 (Some ''HG'') (Some 0.25) (Some (- 1.2))
      of Inl e \<Rightarrow> False | Inr a \<Rightarrow> True)"
proof -
  have "Some ''HG'' = None \<or> (\<exists>s. Some ''HG'' = Some s \<and> s = upper_ascii s)"
    by (simp add: upper_ascii_symbols)
  from construction_succeeds_when_element_upper [OF this]
  obtain a where "Atom_init upper_ascii ''HG'' [0.0, 0.0, 0.0] (Some 35.7) (Some 7.5) '' ''
                    ''HG  '' 3 (Some ''HG'') (Some 0.25) (Some (- 1.2)) = Inr a"
    by blast
  then show ?thesis
    by (simp only: sum.case)
qed

text \<open>
  Claim C5. Construction with the element \<^verbatim>\<open>None\<close> succeeds, and the Atom has no mass.
\<close>

theorem element_None_succeeds_without_mass:
  "\<exists>a. Atom_init up nm crd bf occ alt fnm ser None chg rad = Inr a \<and> mass a = None"
  by (simp add: Atom_init_Inr_iff element_assertion_None)

theorem element_None_succeeds_without_mass_witness:
  "(case Atom_init upper_ascii ''X'' [0.0, 0.0, 0.0] None None '' '' '' X  '' 2
           None None None
      of Inl e \<Rightarrow> False | Inr a \<Rightarrow> mass a = None)"
proof -
  from element_None_succeeds_without_mass
  obtain a where "Atom_init upper_ascii ''X'' [0.0, 0.0, 0.0] None None '' '' '' X  '' 2
                    None None None = Inr a" and "mass a = None"
    by blast
  then show ?thesis
    by (simp only: sum.case)
qed

text \<open>
  Claim C8. Construction with the empty string as element succeeds: the assertion holds
  because \<^verbatim>\<open>not ""\<close> is true. The Atom stores the empty string as its element and has
  no mass.
\<close>

theorem element_empty_succeeds_without_mass:
  "py_not (Some []) \<and>
   (\<exists>a. Atom_init up nm crd bf occ alt fnm ser (Some []) chg rad = Inr a \<and>
        element a = Some [] \<and> mass a = None)"
  by (simp add: Atom_init_Inr_iff element_assertion_empty)

theorem element_empty_succeeds_without_mass_witness:
  "(case Atom_init upper_ascii ''X'' [0.0, 0.0, 0.0] None None '' '' '' X  '' 2
           (Some []) None None
      of Inl e \<Rightarrow> False | Inr a \<Rightarrow> element a = Some [] \<and> mass a = None)"
proof -
  from element_empty_succeeds_without_mass
  obtain a where "Atom_init upper_ascii ''X'' [0.0, 0.0, 0.0] None None '' '' '' X  '' 2
                    (Some []) None None = Inr a"
    and "element a = Some []" and "mass a = None"
    by blast
  then show ?thesis
    by (simp only: sum.case simp_thms)
qed

text \<open>
  Claim C6. Element assignment is the identity. \<^verbatim>\<open>_assign_element\<close> returns its
  argument, on every object and for every argument, a string in any case or \<^verbatim>\<open>None\<close>:
  nothing is canonicalized or looked up. The element of a constructed Atom is therefore
  the element argument itself.
\<close>

theorem element_stored_unchanged:
  "assign_element self el' = el' \<and>
   (Atom_init up nm crd bf occ alt fnm ser el chg rad = Inr a \<longrightarrow> element a = el)"
  by (simp add: assign_element_def Atom_init_Inr_iff)

theorem element_stored_unchanged_witness:
  "(case ca_atom_instance upper_ascii of Inl e \<Rightarrow> False | Inr a \<Rightarrow>
      element a = Some ''C'' \<and>
      assign_element a (Some ''c'') = Some ''c'' \<and>
      assign_element a (Some ''hg'') = Some ''hg'' \<and>
      assign_element a None = None) \<and>
   (case Atom_init upper_ascii ''HG'' [0.0, 0.0, 0.0] None None '' '' ''HG  '' 3
           (Some ''HG'') None None
      of Inl e \<Rightarrow> False | Inr a \<Rightarrow> element a = Some ''HG'') \<and>
   (case Atom_init upper_ascii ''X'' [0.0, 0.0, 0.0] None None '' '' '' X  '' 2
           None None None
      of Inl e \<Rightarrow> False | Inr a \<Rightarrow> element a = None)"
proof -
  obtain a1 where a1: "ca_atom_instance upper_ascii = Inr a1"
    using ca_atom_instance_ok by blast
  obtain a2 where a2: "Atom_init upper_ascii ''HG'' [0.0, 0.0, 0.0] None None '' ''
                         ''HG  '' 3 (Some ''HG'') None None = Inr a2"
    using Atom_init_succeeds [OF element_assertion_symbols(5)] by blast
  obtain a3 where a3: "Atom_init upper_ascii ''X'' [0.0, 0.0, 0.0] None None '' '' '' X  '' 2
                         None None None = Inr a3"
    using Atom_init_succeeds [OF element_assertion_None] by blast
  have e1: "element a1 = Some ''C''"
    using element_stored_unchanged a1 [unfolded ca_atom_instance_def] by blast
  have e2: "element a2 = Some ''HG''"
    using element_stored_unchanged a2 by blast
  have e3: "element a3 = None"
    using element_stored_unchanged a3 by blast
  have i1: "assign_element a1 (Some ''c'') = Some ''c''"
    using element_stored_unchanged by blast
  have i2: "assign_element a1 (Some ''hg'') = Some ''hg''"
    using element_stored_unchanged by blast
  have i3: "assign_element a1 None = None"
    using element_stored_unchanged by blast
  show ?thesis
    by (simp only: a1 a2 a3 sum.case e1 e2 e3 i1 i2 i3 simp_thms)
qed

subsection \<open>The attributes after construction\<close>

text \<open>
  Claim C3. After every successful construction the attributes \<^verbatim>\<open>name\<close>, \<^verbatim>\<open>coord\<close>,
  \<^verbatim>\<open>bfactor\<close>, \<^verbatim>\<open>occupancy\<close>, \<^verbatim>\<open>altloc\<close>, \<^verbatim>\<open>fullname\<close>, \<^verbatim>\<open>serial_number\<close>,
  \<^verbatim>\<open>pqr_charge\<close> and \<^verbatim>\<open>radius\<close> hold exactly the values passed to the constructor.
\<close>

theorem arguments_stored_unchanged:
  assumes "Atom_init up nm crd bf occ alt fnm ser el chg rad = Inr a"
  shows "name a = nm \<and> coord a = crd \<and> bfactor a = bf \<and> occupancy a = occ \<and>
         altloc a = alt \<and> fullname a = fnm \<and> serial_number a = ser \<and>
         pqr_charge a = chg \<and> radius a = rad"
  using assms by (simp add: Atom_init_Inr_iff)

theorem arguments_stored_unchanged_witness:
  "(case ca_atom_instance upper_ascii of Inl e \<Rightarrow> False | Inr a \<Rightarrow>
      name a = ''CA'' \<and> coord a = [15.234, 12.567, 8.901] \<and> bfactor a = Some 35.7 \<and>
      occupancy a = Some 1.0 \<and> altloc a = '' '' \<and> fullname a = '' CA '' \<and>
      serial_number a = 25 \<and> pqr_charge a = None \<and> radius a = None) \<and>
   (case h_atom_pqr upper_ascii of Inl e \<Rightarrow> False | Inr a \<Rightarrow>
      name a = ''H1'' \<and> coord a = [10.0, 10.0, 10.0] \<and> bfactor a = None \<and>
      occupancy a = None \<and> altloc a = '' '' \<and> fullname a = '' H1 '' \<and>
      serial_number a = 1 \<and> pqr_charge a = Some 0.25 \<and> radius a = Some 1.2)"
proof -
  obtain a1 where a1: "ca_atom_instance upper_ascii = Inr a1"
    using ca_atom_instance_ok by blast
  obtain a2 where a2: "h_atom_pqr upper_ascii = Inr a2"
    using h_atom_pqr_ok by blast
  note s1 = arguments_stored_unchanged [OF a1 [unfolded ca_atom_instance_def]]
  note s2 = arguments_stored_unchanged [OF a2 [unfolded h_atom_pqr_def]]
  show ?thesis
    by (simp only: a1 a2 sum.case s1 s2 simp_thms)
qed

text \<open>
  Claim C7. After every successful construction the parent is \<^verbatim>\<open>None\<close>: the constructor
  links no Atom to a Residue, and the three constructions of the demonstration are
  instances.
\<close>

theorem parent_unset_after_construction:
  assumes "Atom_init up nm crd bf occ alt fnm ser el chg rad = Inr a"
  shows "parent a = None"
  using assms by (simp add: Atom_init_Inr_iff)

theorem parent_unset_after_construction_witness:
  "(case ca_atom_instance upper_ascii of Inl e \<Rightarrow> False | Inr a \<Rightarrow> parent a = None) \<and>
   (case o_atom_altB upper_ascii of Inl e \<Rightarrow> False | Inr a \<Rightarrow> parent a = None) \<and>
   (case h_atom_pqr upper_ascii of Inl e \<Rightarrow> False | Inr a \<Rightarrow> parent a = None)"
proof -
  obtain a1 where a1: "ca_atom_instance upper_ascii = Inr a1"
    using ca_atom_instance_ok by blast
  obtain a2 where a2: "o_atom_altB upper_ascii = Inr a2"
    using o_atom_altB_ok by blast
  obtain a3 where a3: "h_atom_pqr upper_ascii = Inr a3"
    using h_atom_pqr_ok by blast
  note p1 = parent_unset_after_construction [OF a1 [unfolded ca_atom_instance_def]]
  note p2 = parent_unset_after_construction [OF a2 [unfolded o_atom_altB_def]]
  note p3 = parent_unset_after_construction [OF a3 [unfolded h_atom_pqr_def]]
  show ?thesis
    by (simp only: a1 a2 a3 sum.case p1 p2 p3 simp_thms)
qed

text \<open>
  Claim C9. After every successful construction the fixed part of the state is in place:
  \<^verbatim>\<open>id\<close> is the name argument, \<^verbatim>\<open>level\<close> is \<^verbatim>\<open>"A"\<close>, \<^verbatim>\<open>disordered_flag\<close> is 0,
  \<^verbatim>\<open>full_id\<close> is \<^verbatim>\<open>None\<close>, \<^verbatim>\<open>xtra\<close> is the empty dictionary, and \<^verbatim>\<open>anisou_array\<close>,
  \<^verbatim>\<open>siguij_array\<close> and \<^verbatim>\<open>sigatm_array\<close> are \<^verbatim>\<open>None\<close>.
\<close>

theorem fixed_initial_state:
  assumes "Atom_init up nm crd bf occ alt fnm ser el chg rad = Inr a"
  shows "id_atom a = nm \<and> level a = ''A'' \<and> disordered_flag a = 0 \<and> full_id a = None \<and>
         xtra a = Map.empty \<and> anisou_array a = None \<and> siguij_array a = None \<and>
         sigatm_array a = None"
  using assms by (simp add: Atom_init_Inr_iff)

theorem fixed_initial_state_witness:
  "(case o_atom_altB upper_ascii of Inl e \<Rightarrow> False | Inr a \<Rightarrow>
      id_atom a = ''O'' \<and> level a = ''A'' \<and> disordered_flag a = 0 \<and> full_id a = None \<and>
      xtra a = Map.empty \<and> anisou_array a = None \<and> siguij_array a = None \<and>
      sigatm_array a = None)"
proof -
  obtain a where a: "o_atom_altB upper_ascii = Inr a"
    using o_atom_altB_ok by blast
  note s = fixed_initial_state [OF a [unfolded o_atom_altB_def]]
  show ?thesis
    by (simp only: a sum.case s simp_thms)
qed

end
